theory Spec2Isabelle
  imports Main
begin

section \<open>Python values\<close>

text \<open>
  The module \<^verbatim>\<open>nonechucks/utils.py\<close> works on untyped Python values. The values that its
  runtime type tests tell apart are modelled by one datatype.

  \<^item> The contents of a tensor are a block of numbers whose first axis indexes the rows; a
    0-dimensional tensor is a single number. The module never looks at the numbers.
    \<open>PTensor a t\<close> is the tensor object at address \<open>a\<close> with contents \<open>t\<close>: torch hashes a
    tensor by its identity.
  \<^item> A dictionary is an association list in insertion order, as Python iterates it. The
    keys of a dictionary built by Python are hashable and pairwise different.
  \<^item> \<open>PObj c a\<close> is an instance of a user class with qualified name \<open>c\<close>, living at
    address \<open>a\<close>. Such a class defines none of \<^verbatim>\<open>__eq__\<close>, \<^verbatim>\<open>__hash__\<close>, \<^verbatim>\<open>__len__\<close>,
    \<^verbatim>\<open>__getitem__\<close>, \<^verbatim>\<open>__iter__\<close>, so that its instances are compared and hashed by identity.
  \<^item> \<open>PValueObj c a v\<close> is an instance, at address \<open>a\<close>, of a user class \<open>c\<close> that defines
    \<^verbatim>\<open>__eq__\<close> and \<^verbatim>\<open>__hash__\<close> from a value \<open>v\<close>, as a frozen dataclass does: two instances
    are equal when their classes and their values are, and the hash of an instance is the
    hash of its value. The class defines none of \<^verbatim>\<open>__len__\<close>, \<^verbatim>\<open>__getitem__\<close>, \<^verbatim>\<open>__iter__\<close>.
  \<^item> Two objects that are alive together have different addresses.
  \<^item> There are neither booleans nor floats, so that no two values of different built-in
    types are equal for Python.
\<close>

datatype tensor = Scalar int | Block "tensor list"

datatype pyval =
    PNone
  | PInt int
  | PStr string
  | PList "pyval list"
  | PTuple "pyval list"
  | PDict "(pyval \<times> pyval) list"
  | PTensor nat tensor
  | PObj string nat
  | PValueObj string nat pyval

text \<open>
  Exceptions are values. \<open>Propagated e\<close> is an exception \<open>e\<close> raised by code outside this
  module (torch, the default collation routine, a decorated function) and passed on unchanged.
\<close>

datatype 'e error =
    TypeError string
  | KeyError pyval
  | IndexError string
  | AttributeError string
  | Propagated 'e

definition external :: "'e + 'a \<Rightarrow> 'e error + 'a" where
  "external r = (case r of Inl e \<Rightarrow> Inl (Propagated e) | Inr v \<Rightarrow> Inr v)"

text \<open>A list comprehension: the elements are computed from left to right, the first
  exception ends the computation.\<close>

fun collect :: "('a \<Rightarrow> 'x + 'b) \<Rightarrow> 'a list \<Rightarrow> 'x + 'b list" where
  "collect f [] = Inr []"
| "collect f (x # xs) =
     (case f x of
        Inl e \<Rightarrow> Inl e
      | Inr y \<Rightarrow> (case collect f xs of Inl e \<Rightarrow> Inl e | Inr ys \<Rightarrow> Inr (y # ys)))"

subsection \<open>Runtime type tests\<close>

fun isinstance_Tensor :: "pyval \<Rightarrow> bool" where
  "isinstance_Tensor (PTensor a t) = True"
| "isinstance_Tensor v = False"

text \<open>\<^verbatim>\<open>collections.Sequence\<close>: lists, tuples and strings are registered sequences.\<close>

fun isinstance_Sequence :: "pyval \<Rightarrow> bool" where
  "isinstance_Sequence (PList xs) = True"
| "isinstance_Sequence (PTuple xs) = True"
| "isinstance_Sequence (PStr s) = True"
| "isinstance_Sequence v = False"

fun isinstance_Mapping :: "pyval \<Rightarrow> bool" where
  "isinstance_Mapping (PDict kvs) = True"
| "isinstance_Mapping v = False"

fun isinstance_list :: "pyval \<Rightarrow> bool" where
  "isinstance_list (PList xs) = True"
| "isinstance_list v = False"

fun isinstance_string_classes :: "pyval \<Rightarrow> bool" where
  "isinstance_string_classes (PStr s) = True"
| "isinstance_string_classes v = False"

fun type_name :: "pyval \<Rightarrow> string" where
  "type_name PNone = ''NoneType''"
| "type_name (PInt i) = ''int''"
| "type_name (PStr s) = ''str''"
| "type_name (PList xs) = ''list''"
| "type_name (PTuple xs) = ''tuple''"
| "type_name (PDict kvs) = ''dict''"
| "type_name (PTensor a t) = ''torch.Tensor''"
| "type_name (PObj c a) = c"
| "type_name (PValueObj c a v) = c"

definition quoted :: "string \<Rightarrow> string" where
  "quoted s = CHR 0x27 # s @ [CHR 0x27]"

text \<open>What \<^verbatim>\<open>str.format\<close> prints for \<^verbatim>\<open>type(v)\<close>, as in \<^verbatim>\<open><class 'int'>\<close>.\<close>

definition type_repr :: "pyval \<Rightarrow> string" where
  "type_repr v = ''<class '' @ quoted (type_name v) @ ''>''"

subsection \<open>Hashing\<close>

text \<open>Lists and dictionaries cannot be hashed; a tuple is hashed through its components,
  from left to right. \<open>unhashable_type v\<close> is the type name that the \<^verbatim>\<open>TypeError\<close> of
  \<^verbatim>\<open>hash(v)\<close> reports, if there is one.\<close>

fun first_some :: "'a option list \<Rightarrow> 'a option" where
  "first_some [] = None"
| "first_some (None # xs) = first_some xs"
| "first_some (Some x # xs) = Some x"

fun unhashable_type :: "pyval \<Rightarrow> string option" where
  "unhashable_type (PList xs) = Some ''list''"
| "unhashable_type (PDict kvs) = Some ''dict''"
| "unhashable_type (PTuple xs) = first_some (map unhashable_type xs)"
| "unhashable_type (PValueObj c a v) = unhashable_type v"
| "unhashable_type v = None"

definition hashable :: "pyval \<Rightarrow> bool" where
  "hashable v = (unhashable_type v = None)"

definition unhashable_msg :: "string \<Rightarrow> string" where
  "unhashable_msg t = ''unhashable type: '' @ quoted t"

subsection \<open>Built-in operations: length, iteration, subscription, slicing\<close>

definition no_len_msg :: "pyval \<Rightarrow> string" where
  "no_len_msg v = ''object of type '' @ quoted (type_name v) @ '' has no len()''"

fun py_len :: "pyval \<Rightarrow> 'e error + int" where
  "py_len (PList xs) = Inr (int (length xs))"
| "py_len (PTuple xs) = Inr (int (length xs))"
| "py_len (PStr s) = Inr (int (length s))"
| "py_len (PDict kvs) = Inr (int (length kvs))"
| "py_len (PTensor a (Block rows)) = Inr (int (length rows))"
| "py_len (PTensor a (Scalar x)) = Inl (TypeError ''len() of a 0-d tensor'')"
| "py_len v = Inl (TypeError (no_len_msg v))"

text \<open>
  The capabilities that the module takes from torch. They are not part of this repository
  and are parameters of the model: concatenation of tensors along axis 0, the default
  collation routine, the indexing of a tensor by anything but one integer, and the
  addresses of the tensor objects that torch creates: for row \<open>i\<close> of the tensor at address
  \<open>a\<close>, and for a slice of it.
\<close>

record 'e torch =
  cat :: "pyval list \<Rightarrow> 'e + pyval"
  default_collate :: "pyval list \<Rightarrow> 'e + pyval"
  tensor_getitem :: "nat \<Rightarrow> tensor \<Rightarrow> pyval \<Rightarrow> 'e + pyval"
  row_address :: "nat \<Rightarrow> nat \<Rightarrow> nat"
  slice_address :: "nat \<Rightarrow> int option \<Rightarrow> int option \<Rightarrow> nat"

definition not_iterable_msg :: "pyval \<Rightarrow> string" where
  "not_iterable_msg v = quoted (type_name v) @ '' object is not iterable''"

text \<open>The elements that iterating over a value yields: a dictionary yields its keys, a
  string its characters, a tensor its rows.\<close>

fun py_iter :: "'e torch \<Rightarrow> pyval \<Rightarrow> 'e error + pyval list" where
  "py_iter T (PList xs) = Inr xs"
| "py_iter T (PTuple xs) = Inr xs"
| "py_iter T (PStr s) = Inr (map (\<lambda>c. PStr [c]) s)"
| "py_iter T (PDict kvs) = Inr (map fst kvs)"
| "py_iter T (PTensor a (Block rows)) =
     Inr (map (\<lambda>(i, r). PTensor (row_address T a i) r) (enumerate 0 rows))"
| "py_iter T (PTensor a (Scalar x)) = Inl (TypeError ''iteration over a 0-d tensor'')"
| "py_iter T v = Inl (TypeError (not_iterable_msg v))"

text \<open>Indexing a sequence by an integer: a negative index counts from the end, an index
  out of range is an error (\<open>None\<close> here).\<close>

definition seq_index :: "'a list \<Rightarrow> int \<Rightarrow> 'a option" where
  "seq_index xs i =
     (let n = int (length xs); j = (if i < 0 then i + n else i)
      in if 0 \<le> j \<and> j < n then Some (xs ! nat j) else None)"

definition norm_index :: "nat \<Rightarrow> int \<Rightarrow> nat option" where
  "norm_index n i =
     (let j = (if i < 0 then i + int n else i)
      in if 0 \<le> j \<and> j < int n then Some (nat j) else None)"

definition dict_getitem :: "(pyval \<times> pyval) list \<Rightarrow> pyval \<Rightarrow> 'e error + pyval" where
  "dict_getitem kvs k =
     (case unhashable_type k of
        Some t \<Rightarrow> Inl (TypeError (unhashable_msg t))
      | None \<Rightarrow> (case map_of kvs k of None \<Rightarrow> Inl (KeyError k) | Some v \<Rightarrow> Inr v))"

definition bad_index_msg :: "string \<Rightarrow> pyval \<Rightarrow> string" where
  "bad_index_msg kind k = kind @ '' indices must be integers or slices, not '' @ type_name k"

definition not_subscriptable_msg :: "pyval \<Rightarrow> string" where
  "not_subscriptable_msg v = quoted (type_name v) @ '' object is not subscriptable''"

text \<open>\<^verbatim>\<open>container[k]\<close> for a key \<open>k\<close> that is not a slice.\<close>

fun py_getitem :: "'e torch \<Rightarrow> pyval \<Rightarrow> pyval \<Rightarrow> 'e error + pyval" where
  "py_getitem T (PDict kvs) k = dict_getitem kvs k"
| "py_getitem T (PList xs) (PInt i) =
     (case seq_index xs i of
        None \<Rightarrow> Inl (IndexError ''list index out of range'')
      | Some v \<Rightarrow> Inr v)"
| "py_getitem T (PList xs) k = Inl (TypeError (bad_index_msg ''list'' k))"
| "py_getitem T (PTuple xs) (PInt i) =
     (case seq_index xs i of
        None \<Rightarrow> Inl (IndexError ''tuple index out of range'')
      | Some v \<Rightarrow> Inr v)"
| "py_getitem T (PTuple xs) k = Inl (TypeError (bad_index_msg ''tuple'' k))"
| "py_getitem T (PStr s) (PInt i) =
     (case seq_index s i of
        None \<Rightarrow> Inl (IndexError ''string index out of range'')
      | Some c \<Rightarrow> Inr (PStr [c]))"
| "py_getitem T (PStr s) k = Inl (TypeError (bad_index_msg ''string'' k))"
| "py_getitem T (PTensor a (Block rows)) (PInt i) =
     (case norm_index (length rows) i of
        None \<Rightarrow> Inl (IndexError ''index out of range for tensor'')
      | Some j \<Rightarrow> Inr (PTensor (row_address T a j) (rows ! j)))"
| "py_getitem T (PTensor a (Scalar x)) (PInt i) =
     Inl (IndexError ''invalid index of a 0-dim tensor'')"
| "py_getitem T (PTensor a t) k = external (tensor_getitem T a t k)"
| "py_getitem T v k = Inl (TypeError (not_subscriptable_msg v))"

text \<open>The half-open range that \<^verbatim>\<open>xs[start:end]\<close> selects from a sequence of length \<open>n\<close>:
  a missing bound is the beginning or the end, a negative bound counts from the end, and
  every bound is clipped to the sequence.\<close>

definition clip :: "nat \<Rightarrow> int \<Rightarrow> nat" where
  "clip n i = (if i < 0 then nat (max 0 (int n + i)) else min (nat i) n)"

definition slice_list :: "'a list \<Rightarrow> int option \<Rightarrow> int option \<Rightarrow> 'a list" where
  "slice_list xs start end' =
     (let n = length xs;
          lo = (case start of None \<Rightarrow> 0 | Some i \<Rightarrow> clip n i);
          hi = (case end' of None \<Rightarrow> n | Some j \<Rightarrow> clip n j)
      in take (hi - lo) (drop lo xs))"

text \<open>\<^verbatim>\<open>v[start:end]\<close>. The slice of a tensor is a new tensor object. A dictionary hashes the slice object it is given as a key, which
  fails.\<close>

fun py_slice :: "'e torch \<Rightarrow> pyval \<Rightarrow> int option \<Rightarrow> int option \<Rightarrow> 'e error + pyval" where
  "py_slice T (PList xs) start end' = Inr (PList (slice_list xs start end'))"
| "py_slice T (PTuple xs) start end' = Inr (PTuple (slice_list xs start end'))"
| "py_slice T (PStr s) start end' = Inr (PStr (slice_list s start end'))"
| "py_slice T (PTensor a (Block rows)) start end' =
     Inr (PTensor (slice_address T a start end') (Block (slice_list rows start end')))"
| "py_slice T (PTensor a (Scalar x)) start end' =
     Inl (IndexError ''slice() cannot be applied to a 0-dim tensor'')"
| "py_slice T (PDict kvs) start end' = Inl (TypeError (unhashable_msg ''slice''))"
| "py_slice T v start end' = Inl (TypeError (not_subscriptable_msg v))"

text \<open>Storing under a key of a dictionary: an existing key keeps its place, a new key goes
  to the end.\<close>

fun dict_set :: "('k \<times> 'v) list \<Rightarrow> 'k \<Rightarrow> 'v \<Rightarrow> ('k \<times> 'v) list" where
  "dict_set [] k v = [(k, v)]"
| "dict_set ((k', v') # kvs) k v =
     (if k' = k then (k, v) # kvs else (k', v') # dict_set kvs k v)"

text \<open>A dictionary comprehension \<^verbatim>\<open>{key: f(key) for key in keys}\<close>, started from the
  entries \<open>acc\<close>: for each key the value is computed, then the key is hashed and the entry
  stored.\<close>

fun dict_comp ::
  "(pyval \<Rightarrow> 'e error + pyval) \<Rightarrow> pyval list \<Rightarrow> (pyval \<times> pyval) list
    \<Rightarrow> 'e error + (pyval \<times> pyval) list" where
  "dict_comp f [] acc = Inr acc"
| "dict_comp f (key # keys) acc =
     (case f key of
        Inl e \<Rightarrow> Inl e
      | Inr v \<Rightarrow>
          (case unhashable_type key of
             Some t \<Rightarrow> Inl (TypeError (unhashable_msg t))
           | None \<Rightarrow> dict_comp f keys (dict_set acc key v)))"

section \<open>Batches\<close>

definition error_msg :: string where
  "error_msg = ''batches must be tensors, dicts, or lists; found ''"

text \<open>
  \<^verbatim>\<open>collate_batches(batches, collate_fn=default_collate)\<close>. The argument \<open>collate_fn\<close> is
  in the signature; the body calls the global \<^verbatim>\<open>default_collate\<close>.
\<close>

definition collate_batches ::
  "'e torch \<Rightarrow> pyval list \<Rightarrow> (pyval list \<Rightarrow> 'e + pyval) \<Rightarrow> 'e error + pyval" where
  "collate_batches T batches collate_fn =
     (case batches of
        [] \<Rightarrow> Inl (IndexError ''list index out of range'')
      | b0 # rest \<Rightarrow>
          if isinstance_Tensor b0 then external (cat T batches)
          else if isinstance_Sequence b0 then
            (case collect (py_iter T) batches of
               Inl e \<Rightarrow> Inl e
             | Inr xss \<Rightarrow> Inr (PList (concat xss)))
          else if isinstance_Mapping b0 then
            (case py_iter T b0 of
               Inl e \<Rightarrow> Inl e
             | Inr keys \<Rightarrow>
                 (case dict_comp
                         (\<lambda>key. case collect (\<lambda>d. py_getitem T d key) batches of
                                  Inl e \<Rightarrow> Inl e
                                | Inr vs \<Rightarrow> external (default_collate T vs))
                         keys [] of
                    Inl e \<Rightarrow> Inl e
                  | Inr d \<Rightarrow> Inr (PDict d)))
          else Inl (TypeError (error_msg @ type_repr b0)))"

text \<open>\<^verbatim>\<open>batch_len(batch)\<close>. Only a \<^verbatim>\<open>list\<close> is looked into; the first key of a mapping is
  the first key of its iteration order.\<close>

fun batch_len :: "pyval \<Rightarrow> 'e error + int" where
  "batch_len (PList []) = Inl (IndexError ''list index out of range'')"
| "batch_len (PList (x # xs)) =
     (if isinstance_string_classes x then py_len (PList (x # xs)) else py_len x)"
| "batch_len (PDict []) = Inl (IndexError ''list index out of range'')"
| "batch_len (PDict ((first_key, v) # kvs)) =
     (case dict_getitem ((first_key, v) # kvs) first_key of
        Inl e \<Rightarrow> Inl e
      | Inr field \<Rightarrow> py_len field)"
| "batch_len batch = py_len batch"

text \<open>\<^verbatim>\<open>slice_batch(batch, start=None, end=None)\<close>. The second test is on \<^verbatim>\<open>batch[0]\<close>,
  so a batch that is not a list is subscripted with the integer 0 first.\<close>

definition slice_batch ::
  "'e torch \<Rightarrow> pyval \<Rightarrow> int option \<Rightarrow> int option \<Rightarrow> 'e error + pyval" where
  "slice_batch T batch start end' =
     (if isinstance_list batch then
        (case py_getitem T batch (PInt 0) of
           Inl e \<Rightarrow> Inl e
         | Inr b0 \<Rightarrow>
             if isinstance_string_classes b0 then py_slice T batch start end'
             else
               (case py_iter T batch of
                  Inl e \<Rightarrow> Inl e
                | Inr samples \<Rightarrow>
                    (case collect (\<lambda>sample. py_slice T sample start end') samples of
                       Inl e \<Rightarrow> Inl e
                     | Inr ys \<Rightarrow> Inr (PList ys))))
      else
        (case py_getitem T batch (PInt 0) of
           Inl e \<Rightarrow> Inl e
         | Inr b0 \<Rightarrow>
             if isinstance_Mapping b0 then
               (case py_iter T batch of
                  Inl e \<Rightarrow> Inl e
                | Inr keys \<Rightarrow>
                    (case dict_comp
                            (\<lambda>key. case py_getitem T batch key of
                                     Inl e \<Rightarrow> Inl e
                                   | Inr v \<Rightarrow> py_slice T v start end')
                            keys [] of
                       Inl e \<Rightarrow> Inl e
                     | Inr d \<Rightarrow> Inr (PDict d)))
             else py_slice T batch start end'))"

section \<open>The memoizing decorator\<close>

text \<open>
  A decorated function takes its positional arguments, its keyword arguments and the state
  of the program around it (of any type \<open>'w\<close>); it returns a value or raises, and leaves a
  new state. To count invocations, the state carries the list of the calls made so far.
\<close>

type_synonym kwargs = "(string \<times> pyval) list"

type_synonym ('e, 'w) pyfunction = "pyval list \<Rightarrow> kwargs \<Rightarrow> 'w \<Rightarrow> ('e + pyval) \<times> 'w"

record 'w state =
  world :: 'w
  calls :: "(pyval list \<times> kwargs) list"

definition invoke ::
  "('e, 'w) pyfunction \<Rightarrow> pyval list \<Rightarrow> kwargs \<Rightarrow> 'w state \<Rightarrow> ('e error + pyval) \<times> 'w state" where
  "invoke f args kw s =
     (let (r, w) = f args kw (world s)
      in (external r, \<lparr>world = w, calls = calls s @ [(args, kw)]\<rparr>))"

text \<open>
  The cache is a dictionary, and a dictionary finds an entry by the hash of the key and by
  \<^verbatim>\<open>==\<close>, not by the identity of the key. \<open>key_of v\<close> is what a hashable value \<open>v\<close> is to
  a dictionary: two values find the same entry exactly when their \<open>key_of\<close> are the same.
  Numbers, strings and \<^verbatim>\<open>None\<close> are compared by value and tuples component by component;
  a tensor and an instance of a class without \<^verbatim>\<open>__eq__\<close> are compared by address, whatever
  their contents; an instance of a class with \<^verbatim>\<open>__eq__\<close> and \<^verbatim>\<open>__hash__\<close> is compared by
  its class and value, whatever its address. Lists and dictionaries are no keys.
\<close>

datatype hkey =
    KNone
  | KInt int
  | KStr string
  | KTuple "hkey list"
  | KObject nat
  | KValue string hkey
  | KUnhashable

fun key_of :: "pyval \<Rightarrow> hkey" where
  "key_of PNone = KNone"
| "key_of (PInt i) = KInt i"
| "key_of (PStr s) = KStr s"
| "key_of (PTuple xs) = KTuple (map key_of xs)"
| "key_of (PTensor a t) = KObject a"
| "key_of (PObj c a) = KObject a"
| "key_of (PValueObj c a v) = KValue c (key_of v)"
| "key_of (PList xs) = KUnhashable"
| "key_of (PDict kvs) = KUnhashable"

text \<open>A cache key is \<^verbatim>\<open>(instance, args, frozenset(kw.items()))\<close>, as the dictionary sees
  it.\<close>

type_synonym key = "hkey \<times> hkey list \<times> (string \<times> hkey) set"

definition call_key :: "pyval \<Rightarrow> pyval list \<Rightarrow> kwargs \<Rightarrow> key" where
  "call_key instance args kw =
     (key_of instance, map key_of args, set (map (\<lambda>(name, v). (name, key_of v)) kw))"

record ('e, 'w) memoize =
  func :: "('e, 'w) pyfunction"
  cache :: "key \<Rightarrow> pyval option"
  memoize :: bool

definition memoize_init :: "('e, 'w) pyfunction \<Rightarrow> ('e, 'w) memoize" where
  "memoize_init f = \<lparr>func = f, cache = Map.empty, memoize = True\<rparr>"

text \<open>
  Building the key and looking it up hashes, in this order, the items of \<open>kw\<close> (when the
  frozenset is built), then the instance and the positional arguments (when the tuple is
  hashed for the lookup). The first value that cannot be hashed raises \<^verbatim>\<open>TypeError\<close>, which
  the handler for \<^verbatim>\<open>KeyError\<close> does not catch.
\<close>

definition make_key :: "pyval \<Rightarrow> pyval list \<Rightarrow> kwargs \<Rightarrow> 'e error + key" where
  "make_key instance args kw =
     (case first_some (map unhashable_type (map snd kw @ instance # args)) of
        Some t \<Rightarrow> Inl (TypeError (unhashable_msg t))
      | None \<Rightarrow> Inr (call_key instance args kw))"

text \<open>\<^verbatim>\<open>memoize.__call__(self, instance, *args, **kw)\<close>: the result, the decorator and the
  state after the call.\<close>

definition memoize_call ::
  "('e, 'w) memoize \<Rightarrow> pyval \<Rightarrow> pyval list \<Rightarrow> kwargs \<Rightarrow> 'w state
    \<Rightarrow> ('e error + pyval) \<times> ('e, 'w) memoize \<times> 'w state" where
  "memoize_call self instance args kw s =
     (if \<not> memoize self then
        (let (res, s') = invoke (func self) (instance # args) kw s in (res, self, s'))
      else
        (case make_key instance args kw of
           Inl e \<Rightarrow> (Inl e, self, s)
         | Inr key \<Rightarrow>
             (case cache self key of
                Some res \<Rightarrow> (Inr res, self, s)
              | None \<Rightarrow>
                  (case invoke (func self) (instance # args) kw s of
                     (Inl e, s') \<Rightarrow> (Inl e, self, s')
                   | (Inr res, s') \<Rightarrow>
                       (Inr res, self\<lparr>cache := (cache self)(key \<mapsto> res)\<rparr>, s')))))"

section \<open>The forwarding proxy\<close>

text \<open>
  A \<^verbatim>\<open>transparent_partial\<close> keeps three entries in its own \<^verbatim>\<open>__dict__\<close>. Objects are
  shared, so they live in a store: the address of an object is mapped to its \<^verbatim>\<open>__dict__\<close>,
  and an object that has no \<^verbatim>\<open>__dict__\<close> is not in the store.
\<close>

type_synonym attrs = "(string \<times> pyval) list"

type_synonym store = "nat \<Rightarrow> attrs option"

definition transparent_partial_init :: "pyval \<Rightarrow> pyval list \<Rightarrow> kwargs \<Rightarrow> attrs" where
  "transparent_partial_init f args kw =
     [(''__func'', f), (''__args'', PTuple args),
      (''__kw'', PDict (map (\<lambda>(k, v). (PStr k, v)) kw))]"

definition no_attribute_msg :: "pyval \<Rightarrow> string \<Rightarrow> string" where
  "no_attribute_msg v name = quoted (type_name v) @ '' object has no attribute '' @ quoted name"

text \<open>The built-in \<^verbatim>\<open>setattr\<close> and \<^verbatim>\<open>getattr\<close> on an object whose class does not override
  attribute access.\<close>

fun object_setattr :: "store \<Rightarrow> pyval \<Rightarrow> string \<Rightarrow> pyval \<Rightarrow> 'e error + store" where
  "object_setattr h (PObj c a) name v =
     (case h a of
        None \<Rightarrow> Inl (AttributeError (no_attribute_msg (PObj c a) name))
      | Some d \<Rightarrow> Inr (h(a \<mapsto> dict_set d name v)))"
| "object_setattr h (PValueObj c a x) name v =
     (case h a of
        None \<Rightarrow> Inl (AttributeError (no_attribute_msg (PValueObj c a x) name))
      | Some d \<Rightarrow> Inr (h(a \<mapsto> dict_set d name v)))"
| "object_setattr h target name v = Inl (AttributeError (no_attribute_msg target name))"

fun object_getattr :: "store \<Rightarrow> pyval \<Rightarrow> string \<Rightarrow> 'e error + pyval" where
  "object_getattr h (PObj c a) name =
     (case h a of
        None \<Rightarrow> Inl (AttributeError (no_attribute_msg (PObj c a) name))
      | Some d \<Rightarrow>
          (case map_of d name of
             None \<Rightarrow> Inl (AttributeError (no_attribute_msg (PObj c a) name))
           | Some v \<Rightarrow> Inr v))"
| "object_getattr h (PValueObj c a x) name =
     (case h a of
        None \<Rightarrow> Inl (AttributeError (no_attribute_msg (PValueObj c a x) name))
      | Some d \<Rightarrow>
          (case map_of d name of
             None \<Rightarrow> Inl (AttributeError (no_attribute_msg (PValueObj c a x) name))
           | Some v \<Rightarrow> Inr v))"
| "object_getattr h target name = Inl (AttributeError (no_attribute_msg target name))"

text \<open>
  \<^verbatim>\<open>transparent_partial.__getattr__\<close> and \<^verbatim>\<open>transparent_partial.__setattr__\<close> of the proxy at
  address \<open>self\<close>. The built-ins \<^verbatim>\<open>getattr\<close> and \<^verbatim>\<open>setattr\<close> that they end with dispatch on
  the class of the wrapped object, and are parameters. In \<^verbatim>\<open>__setattr__\<close> the wrapped object
  is read from the \<^verbatim>\<open>__dict__\<close> after the assignment to it.
\<close>

definition transparent_partial_getattr ::
  "(store \<Rightarrow> pyval \<Rightarrow> string \<Rightarrow> 'e error + pyval) \<Rightarrow> store \<Rightarrow> nat \<Rightarrow> string
    \<Rightarrow> 'e error + pyval" where
  "transparent_partial_getattr getattr h self item =
     (case h self of
        None \<Rightarrow> Inl (AttributeError ''__dict__'')
      | Some d \<Rightarrow>
          (case map_of d item of
             Some v \<Rightarrow> Inr v
           | None \<Rightarrow>
               (case map_of d ''__func'' of
                  None \<Rightarrow> Inl (KeyError (PStr ''__func''))
                | Some f \<Rightarrow> getattr h f item)))"

definition transparent_partial_setattr ::
  "(store \<Rightarrow> pyval \<Rightarrow> string \<Rightarrow> pyval \<Rightarrow> 'e error + store) \<Rightarrow> store \<Rightarrow> nat \<Rightarrow> string \<Rightarrow> pyval
    \<Rightarrow> 'e error + store" where
  "transparent_partial_setattr setattr h self key value =
     (case h self of
        None \<Rightarrow> Inl (AttributeError ''__dict__'')
      | Some d \<Rightarrow>
          (let d' = (if key \<in> fst ` set d then dict_set d key value else d);
               h' = h(self \<mapsto> d')
           in case map_of d' ''__func'' of
                None \<Rightarrow> Inl (KeyError (PStr ''__func''))
              | Some f \<Rightarrow> setattr h' f key value))"

text \<open>
  \<^verbatim>\<open>memoize.__get__(self, instance, owner)\<close>. The decorator is the record \<open>self\<close> of its
  fields, and \<open>this\<close> is the reference to the decorator object that the proxy is given.
  The result is either the decorated function itself or the \<^verbatim>\<open>__dict__\<close> of a new proxy.
\<close>

datatype ('e, 'w) attribute =
    Function "('e, 'w) pyfunction"
  | Proxy attrs

definition memoize_get ::
  "pyval \<Rightarrow> ('e, 'w) memoize \<Rightarrow> pyval \<Rightarrow> pyval \<Rightarrow> ('e, 'w) attribute" where
  "memoize_get this self instance owner =
     (if instance = PNone then Function (func self)
      else Proxy (transparent_partial_init this [instance] []))"

section \<open>Example objects\<close>

text \<open>A decorated method that returns the number of times it has been invoked so far, the
  state around it being that number: a call counter.\<close>

definition counting_method :: "(unit, nat) pyfunction" where
  "counting_method args kw n = (Inr (PInt (int n)), Suc n)"

text \<open>A stand-in for torch whose default collation returns the list of the values it is
  given, and whose other operations raise.\<close>

definition listing_torch :: "unit torch" where
  "listing_torch =
     \<lparr>cat = (\<lambda>bs. Inl ()), default_collate = (\<lambda>vs. Inr (PList vs)),
      tensor_getitem = (\<lambda>a t k. Inl ()), row_address = (\<lambda>a i. 0),
      slice_address = (\<lambda>a start end'. 0)\<rparr>"

section \<open>Properties of the batch operations\<close>

subsection \<open>Error messages\<close>

text \<open>The message of the unsupported-batch error begins with the letter b; no message of a
  built-in operation does. Exceptions of torch are propagated and are no \<open>TypeError\<close> of
  this module.\<close>

lemma collect_TypeError:
  assumes "\<And>x m. x \<in> set xs \<Longrightarrow> f x = Inl (TypeError m) \<Longrightarrow> P m"
    and "collect f xs = Inl (TypeError m)"
  shows "P m"
  using assms
  by (induction xs) (auto split: sum.splits)

lemma dict_comp_TypeError:
  assumes "\<And>k m. f k = Inl (TypeError m) \<Longrightarrow> P m"
    and "\<And>t. P (unhashable_msg t)"
    and "dict_comp f keys acc = Inl (TypeError m)"
  shows "P m"
  using assms
  by (induction keys arbitrary: acc) (auto split: sum.splits option.splits)

lemma py_iter_TypeError: "py_iter T v = Inl (TypeError m) \<Longrightarrow> take 1 m \<noteq> ''b''"
  by (cases "(T, v)" rule: py_iter.cases) (auto simp: not_iterable_msg_def quoted_def)

lemma py_getitem_TypeError: "py_getitem T v k = Inl (TypeError m) \<Longrightarrow> take 1 m \<noteq> ''b''"
  by (cases "(T, v, k)" rule: py_getitem.cases)
     (auto simp: dict_getitem_def unhashable_msg_def bad_index_msg_def not_subscriptable_msg_def
        quoted_def external_def split: option.splits sum.splits)

lemma external_TypeError: "external r \<noteq> Inl (TypeError m)"
  by (simp add: external_def split: sum.splits)

subsection \<open>Merging\<close>

lemma collate_batches_collate_fn_unused:
  "collate_batches T batches f = collate_batches T batches g"
  by (simp add: collate_batches_def)

text \<open>
  C1. For a list of mapping batches, \<^verbatim>\<open>collate_batches\<close> is claimed to combine the values of
  each key with the combine function that the caller supplies. The code combines them with
  the global default collation routine instead: with a default routine that returns the list
  of the values and a supplied function that returns \<^verbatim>\<open>None\<close>, merging \<^verbatim>\<open>{"x": 1}\<close> and
  \<^verbatim>\<open>{"x": 2}\<close> gives \<^verbatim>\<open>{"x": [1, 2]}\<close>, not \<^verbatim>\<open>{"x": None}\<close>.
\<close>

theorem collate_batches_mapping_uses_default_collate:
  "collate_batches listing_torch
       [PDict [(PStr ''x'', PInt 1)], PDict [(PStr ''x'', PInt 2)]]
       (\<lambda>vs. Inr PNone)
     = Inr (PDict [(PStr ''x'', PList [PInt 1, PInt 2])])"
  by (simp add: collate_batches_def listing_torch_def dict_getitem_def external_def)

text \<open>
  C9. When the first of a non-empty list of batches is neither a tensor, nor a sequence,
  nor a mapping, \<^verbatim>\<open>collate_batches\<close> raises the \<open>TypeError\<close> whose message is the fixed text
  followed by the type of that first batch. When the first batch is of one of the three
  shapes, no \<open>TypeError\<close> with that text is raised, whatever follows the text.
\<close>

theorem collate_batches_unsupported:
  "(\<not> isinstance_Tensor b0 \<and> \<not> isinstance_Sequence b0 \<and> \<not> isinstance_Mapping b0 \<longrightarrow>
      collate_batches T (b0 # rest) collate_fn = Inl (TypeError (error_msg @ type_repr b0)))
   \<and> (isinstance_Tensor b0 \<or> isinstance_Sequence b0 \<or> isinstance_Mapping b0 \<longrightarrow>
      (\<forall>t. collate_batches T (b0 # rest) collate_fn \<noteq> Inl (TypeError (error_msg @ t))))"
proof (intro conjI impI allI)
  assume "\<not> isinstance_Tensor b0 \<and> \<not> isinstance_Sequence b0 \<and> \<not> isinstance_Mapping b0"
  then show "collate_batches T (b0 # rest) collate_fn = Inl (TypeError (error_msg @ type_repr b0))"
    by (simp add: collate_batches_def)
next
  fix t
  assume sup: "isinstance_Tensor b0 \<or> isinstance_Sequence b0 \<or> isinstance_Mapping b0"
  show "collate_batches T (b0 # rest) collate_fn \<noteq> Inl (TypeError (error_msg @ t))"
  proof
    assume raised: "collate_batches T (b0 # rest) collate_fn = Inl (TypeError (error_msg @ t))"
    have b: "take 1 (error_msg @ t) = ''b''"
      by (simp add: error_msg_def)
    consider (tensor) "isinstance_Tensor b0"
      | (seq) "\<not> isinstance_Tensor b0" "isinstance_Sequence b0"
      | (mapping) "\<not> isinstance_Tensor b0" "\<not> isinstance_Sequence b0" "isinstance_Mapping b0"
      using sup by blast
    then show False
    proof cases
      case tensor
      with raised show False
        by (simp add: collate_batches_def external_TypeError)
    next
      case seq
      with raised have "collect (py_iter T) (b0 # rest) = Inl (TypeError (error_msg @ t))"
        by (simp add: collate_batches_def del: collect.simps split: sum.splits)
      then have "take 1 (error_msg @ t) \<noteq> ''b''"
        by (rule collect_TypeError [rotated]) (rule py_iter_TypeError)
      with b show False by simp
    next
      case mapping
      let ?f = "\<lambda>key. case collect (\<lambda>d. py_getitem T d key) (b0 # rest) of
                        Inl e \<Rightarrow> Inl e
                      | Inr vs \<Rightarrow> external (default_collate T vs)"
      have f: "take 1 m \<noteq> ''b''" if "?f k = Inl (TypeError m)" for k m
      proof (cases "collect (\<lambda>d. py_getitem T d k) (b0 # rest)")
        case (Inl e)
        with that have "collect (\<lambda>d. py_getitem T d k) (b0 # rest) = Inl (TypeError m)"
          by simp
        then show ?thesis
          by (rule collect_TypeError [rotated]) (rule py_getitem_TypeError)
      next
        case (Inr vs)
        with that show ?thesis
          by (simp add: external_TypeError)
      qed
      from mapping obtain kvs where b0: "b0 = PDict kvs"
        by (cases b0) auto
      with raised have "dict_comp ?f (map fst kvs) [] = Inl (TypeError (error_msg @ t))"
        by (simp add: collate_batches_def del: collect.simps split: sum.splits)
      then have "take 1 (error_msg @ t) \<noteq> ''b''"
        by (rule dict_comp_TypeError [rotated 2]) (use f in \<open>auto simp: unhashable_msg_def\<close>)
      with b show False by simp
    qed
  qed
qed

theorem collate_batches_unsupported_witness:
  "\<not> isinstance_Tensor (PInt 3) \<and> \<not> isinstance_Sequence (PInt 3) \<and> \<not> isinstance_Mapping (PInt 3)
   \<and> collate_batches listing_torch [PInt 3, PInt 4] (\<lambda>vs. Inr PNone) =
       Inl (TypeError (''batches must be tensors, dicts, or lists; found <class '' @
                       quoted ''int'' @ ''>''))
   \<and> isinstance_Sequence (PList [PInt 3])
   \<and> collate_batches listing_torch [PList [PInt 3], PInt 4] (\<lambda>vs. Inr PNone) \<noteq>
       Inl (TypeError (error_msg @ type_repr (PInt 4)))"
  using collate_batches_unsupported [of "PInt 3" listing_torch "[PInt 4]" "\<lambda>vs. Inr PNone"]
    collate_batches_unsupported [of "PList [PInt 3]" listing_torch "[PInt 4]" "\<lambda>vs. Inr PNone"]
  by (simp add: error_msg_def type_repr_def)

subsection \<open>Slicing\<close>

lemma slice_list_whole: "slice_list xs None None = xs"
  by (simp add: slice_list_def)

lemma dict_comp_fails:
  "key \<in> set keys \<Longrightarrow> f key = Inl e \<Longrightarrow> \<exists>e'. dict_comp f keys acc = Inl e'"
  by (induction keys arbitrary: acc) (auto split: sum.splits option.splits)

text \<open>No dictionary at all can be sliced by \<^verbatim>\<open>slice_batch\<close>: either it has no key 0, or the
  value under the key 0 is a dictionary, which cannot be sliced, or the batch itself is
  sliced as if it were a sequence.\<close>

lemma slice_batch_dict_fails: "\<exists>e. slice_batch T (PDict kvs) start end' = Inl e"
proof (cases "dict_getitem kvs (PInt 0) :: 'a error + pyval")
  case (Inl e)
  then show ?thesis
    by (simp add: slice_batch_def)
next
  case (Inr b0)
  show ?thesis
  proof (cases "isinstance_Mapping b0")
    case False
    with Inr show ?thesis
      by (simp add: slice_batch_def)
  next
    case True
    then obtain d where b0: "b0 = PDict d"
      by (cases b0) auto
    let ?f = "\<lambda>key. case py_getitem T (PDict kvs) key of
                      Inl e \<Rightarrow> (Inl e :: 'a error + pyval)
                    | Inr v \<Rightarrow> py_slice T v start end'"
    from Inr have "map_of kvs (PInt 0) = Some b0"
      by (simp add: dict_getitem_def split: option.splits)
    then have "PInt 0 \<in> set (map fst kvs)"
      by (metis map_of_eq_None_iff option.distinct(1) set_map)
    moreover have "?f (PInt 0) = Inl (TypeError (unhashable_msg ''slice''))"
      using Inr b0 by simp
    ultimately obtain e' where "dict_comp ?f (map fst kvs) [] = Inl e'"
      using dict_comp_fails [of "PInt 0" "map fst kvs" ?f _ "[]"] by blast
    with Inr True show ?thesis
      by (simp add: slice_batch_def)
  qed
qed

text \<open>
  C2. Slicing the mapping batch \<^verbatim>\<open>{"x": [1,2,3,4], "y": [10,20,30,40]}\<close> to the range from 1
  to 3 is claimed to return \<^verbatim>\<open>{"x": [2,3], "y": [20,30]}\<close>. The code tests \<^verbatim>\<open>batch[0]\<close> for
  being a mapping, and the subscription of the batch with the key 0 raises \<^verbatim>\<open>KeyError\<close>.
\<close>

theorem slice_batch_mapping_scenario:
  "slice_batch T
       (PDict [(PStr ''x'', PList [PInt 1, PInt 2, PInt 3, PInt 4]),
               (PStr ''y'', PList [PInt 10, PInt 20, PInt 30, PInt 40])])
       (Some 1) (Some 3)
     = Inl (KeyError (PInt 0))"
  by (simp add: slice_batch_def dict_getitem_def)

text \<open>
  C3. Slicing with both bounds omitted is claimed to return, without error, a value equal
  to the batch for each of the three shapes. For the mapping batch \<^verbatim>\<open>{"x": [1, 2]}\<close> the
  code raises \<^verbatim>\<open>KeyError\<close>.
\<close>

theorem slice_batch_mapping_unbounded:
  "slice_batch T (PDict [(PStr ''x'', PList [PInt 1, PInt 2])]) None None
     = Inl (KeyError (PInt 0))"
  by (simp add: slice_batch_def dict_getitem_def)

text \<open>The other two shapes do come back unchanged: a tensor with at least one row, as a
  new tensor object with the same contents, a list of text scalars, and a list of lists.\<close>

lemma slice_batch_tensor_unbounded:
  "slice_batch T (PTensor a (Block (r # rows))) None None =
     Inr (PTensor (slice_address T a None None) (Block (r # rows)))"
  by (simp add: slice_batch_def norm_index_def slice_list_whole)

lemma slice_batch_text_unbounded:
  "slice_batch T (PList (PStr s # xs)) None None = Inr (PList (PStr s # xs))"
  by (simp add: slice_batch_def seq_index_def slice_list_whole)

lemma collect_slice_lists:
  "collect (\<lambda>sample. py_slice T sample None None) (map PList xss) = Inr (map PList xss)"
  by (induction xss) (simp_all add: slice_list_whole)

lemma slice_batch_lists_unbounded:
  "slice_batch T (PList (map PList (xs # xss))) None None = Inr (PList (map PList (xs # xss)))"
proof -
  have "collect (\<lambda>sample. py_slice T sample None None) (map PList (xs # xss)) =
      Inr (map PList (xs # xss))"
    by (rule collect_slice_lists)
  then show ?thesis
    by (simp add: slice_batch_def seq_index_def del: collect.simps)
qed

subsection \<open>Length\<close>

text \<open>
  C4, as claimed: for every recognized sequence container whose first element is not a
  text scalar, the length of the batch is the length of that first element. The tuple
  \<^verbatim>\<open>([1, 2, 3],)\<close> is a sequence whose first element is a list of length 3, and its batch
  length is 1.
\<close>

theorem batch_len_tuple_counterexample:
  "batch_len (PTuple [PList [PInt 1, PInt 2, PInt 3]]) = (Inr 1 :: unit error + int)
   \<and> isinstance_Sequence (PTuple [PList [PInt 1, PInt 2, PInt 3]])
   \<and> \<not> isinstance_string_classes (PList [PInt 1, PInt 2, PInt 3])
   \<and> py_len (PList [PInt 1, PInt 2, PInt 3]) = (Inr 3 :: unit error + int)"
  by simp

text \<open>
  C4, amended. For every non-empty \<^verbatim>\<open>list\<close> batch, the length is the length of the list
  itself when its first element is a text scalar, and otherwise what \<^verbatim>\<open>len\<close> gives for the
  first element. For the other sequence containers, tuples and strings, the length is the
  length of the container itself.
\<close>

theorem batch_len_sequence:
  "batch_len (PList (x # xs)) =
     (if isinstance_string_classes x then Inr (int (length (x # xs))) else py_len x)
   \<and> batch_len (PTuple ys) = Inr (int (length ys))
   \<and> batch_len (PStr s) = Inr (int (length s))"
  by simp

theorem batch_len_sequence_witness:
  "batch_len (PList [PStr ''cat'', PStr ''dog'', PStr ''bird'']) = (Inr 3 :: unit error + int)
   \<and> batch_len (PTuple [PStr ''cat'', PStr ''dog'']) = (Inr 2 :: unit error + int)
   \<and> batch_len (PStr ''cat'') = (Inr 3 :: unit error + int)"
  using batch_len_sequence [of "PStr ''cat''" "[PStr ''dog'', PStr ''bird'']"
      "[PStr ''cat'', PStr ''dog'']" "''cat''", where ?'a = unit]
  by simp

section \<open>Properties of the decorator\<close>

subsection \<open>Cache keys\<close>

lemma first_some_None: "first_some xs = None \<longleftrightarrow> (\<forall>x\<in>set xs. x = None)"
  by (induction xs rule: first_some.induct) auto

lemma all_hashable_iff:
  "first_some (map unhashable_type (map snd kw @ instance # args)) = None \<longleftrightarrow>
     hashable instance \<and> (\<forall>a\<in>set args. hashable a) \<and> (\<forall>p\<in>set kw. hashable (snd p))"
  by (auto simp: first_some_None hashable_def)

lemma make_key_eq:
  "make_key instance args kw =
     (if hashable instance \<and> (\<forall>a\<in>set args. hashable a) \<and> (\<forall>p\<in>set kw. hashable (snd p))
      then Inr (call_key instance args kw)
      else Inl (TypeError (unhashable_msg
                 (the (first_some (map unhashable_type (map snd kw @ instance # args)))))))"
proof (cases "first_some (map unhashable_type (map snd kw @ instance # args))")
  case None
  then show ?thesis
    using all_hashable_iff [of kw "instance" args] by (simp add: make_key_def)
next
  case (Some t)
  then show ?thesis
    using all_hashable_iff [of kw "instance" args] by (simp add: make_key_def)
qed


text \<open>Two tensors are the same key exactly when they are the same object, whatever their
  contents; two instances of a class with \<^verbatim>\<open>__eq__\<close> are the same key exactly when their
  classes and values are, whatever their addresses.\<close>

lemma key_of_tensor: "key_of (PTensor a t) = key_of (PTensor b u) \<longleftrightarrow> a = b"
  by simp

lemma key_of_value_object:
  "key_of (PValueObj c a v) = key_of (PValueObj d b w) \<longleftrightarrow> c = d \<and> key_of v = key_of w"
  by simp

subsection \<open>Invocations\<close>

lemma invoke_calls: "calls (snd (invoke f args kw s)) = calls s @ [(args, kw)]"
  by (simp add: invoke_def split: prod.splits)

lemma invoke_not_TypeError: "fst (invoke f args kw s) \<noteq> Inl (TypeError m)"
  by (auto simp: invoke_def external_def split: prod.splits sum.splits)







text \<open>
  C7. When the flag \<^verbatim>\<open>memoize\<close> of the decorator is false, a call invokes the decorated
  function with the instance and the arguments, whatever the cache holds, returns what the
  function returns, and leaves the decorator, the cache with it, as it was.
\<close>

theorem memoize_call_disabled:
  "\<not> memoize self \<Longrightarrow>
   memoize_call self instance args kw s =
     (fst (invoke (func self) (instance # args) kw s), self,
      snd (invoke (func self) (instance # args) kw s))
   \<and> calls (snd (invoke (func self) (instance # args) kw s)) =
       calls s @ [(instance # args, kw)]"
  by (simp add: memoize_call_def invoke_def split: prod.splits)

theorem memoize_call_disabled_witness:
  "\<not> memoize \<lparr>func = counting_method,
                cache = [(KObject 1, [KInt 2], {}) \<mapsto> PInt 0], memoize = False\<rparr>
   \<and> memoize_call
        \<lparr>func = counting_method,
         cache = [(KObject 1, [KInt 2], {}) \<mapsto> PInt 0], memoize = False\<rparr>
        (PObj ''Obj'' 1) [PInt 2] [] \<lparr>world = 5, calls = []\<rparr>
     = (Inr (PInt 5),
        \<lparr>func = counting_method,
         cache = [(KObject 1, [KInt 2], {}) \<mapsto> PInt 0], memoize = False\<rparr>,
        \<lparr>world = 6, calls = [([PObj ''Obj'' 1, PInt 2], [])]\<rparr>)"
  using memoize_call_disabled [of
      "\<lparr>func = counting_method,
        cache = [(KObject 1, [KInt 2], {}) \<mapsto> PInt 0], memoize = False\<rparr>"
      "PObj ''Obj'' 1" "[PInt 2]" "[]" "\<lparr>world = 5, calls = []\<rparr>"]
  by (simp add: invoke_def external_def counting_method_def)

text \<open>
  C8. With the flag on, a call raises the \<open>TypeError\<close> for an unhashable value exactly when
  the instance, a positional argument or the value of a keyword argument is not hashable.
  An exception of the decorated function is propagated and is none of this module.
\<close>

theorem memoize_call_unhashable:
  assumes "memoize self"
  shows "(\<exists>t. fst (memoize_call self instance args kw s) = Inl (TypeError (unhashable_msg t)))
   \<longleftrightarrow> \<not> (hashable instance \<and> (\<forall>a\<in>set args. hashable a) \<and> (\<forall>p\<in>set kw. hashable (snd p)))"
proof (cases "hashable instance \<and> (\<forall>a\<in>set args. hashable a) \<and> (\<forall>p\<in>set kw. hashable (snd p))")
  case True
  have "fst (memoize_call self instance args kw s) \<noteq> Inl (TypeError m)" for m
    using assms True invoke_not_TypeError [of "func self" "instance # args" kw s m]
    by (auto simp: memoize_call_def make_key_eq split: option.splits prod.splits sum.splits)
  with True show ?thesis by blast
next
  case False
  then have "make_key instance args kw =
      (Inl (TypeError (unhashable_msg
             (the (first_some (map unhashable_type (map snd kw @ instance # args))))))
       :: 'a error + key)"
    unfolding make_key_eq by (rule if_not_P)
  then have "fst (memoize_call self instance args kw s) =
      Inl (TypeError (unhashable_msg
             (the (first_some (map unhashable_type (map snd kw @ instance # args))))))"
    using assms by (simp add: memoize_call_def)
  with False show ?thesis by blast
qed

theorem memoize_call_unhashable_witness:
  "memoize (memoize_init counting_method)
   \<and> \<not> hashable (PList [PInt 1])
   \<and> fst (memoize_call (memoize_init counting_method)
            (PObj ''Obj'' 1) [PList [PInt 1]] [] \<lparr>world = 0, calls = []\<rparr>)
       = Inl (TypeError (''unhashable type: '' @ quoted ''list''))
   \<and> (\<exists>t. fst (memoize_call (memoize_init counting_method)
               (PObj ''Obj'' 1) [PList [PInt 1]] [] \<lparr>world = 0, calls = []\<rparr>)
          = Inl (TypeError (unhashable_msg t)))"
  using memoize_call_unhashable [of "memoize_init counting_method"
      "PObj ''Obj'' 1" "[PList [PInt 1]]" "[]" "\<lparr>world = 0, calls = []\<rparr>"]
  by (simp add: memoize_init_def hashable_def memoize_call_def make_key_def unhashable_msg_def)

subsection \<open>Binding\<close>

text \<open>
  C6, as claimed: the proxy that the access on an instance returns has the decorator and
  the instance as its prebound positional arguments. For the decorator object
  \<open>PObj ''memoize'' 0\<close> and the instance \<open>PObj ''Obj'' 1\<close>, the slot \<^verbatim>\<open>__args\<close> of the proxy
  is the tuple of the instance alone.
\<close>

theorem memoize_get_args_counterexample:
  "(case memoize_get (PObj ''memoize'' 0) (memoize_init counting_method)
            (PObj ''Obj'' 1) (PObj ''type'' 2) of
      Proxy d \<Rightarrow> map_of d ''__args''
    | Function f \<Rightarrow> None) = Some (PTuple [PObj ''Obj'' 1])
   \<and> PTuple [PObj ''Obj'' 1] \<noteq> PTuple [PObj ''memoize'' 0, PObj ''Obj'' 1]"
  by (simp add: memoize_get_def transparent_partial_init_def)

text \<open>
  C6, amended. The access on an instance returns a proxy whose wrapped object is the
  decorator, whose prebound positional arguments are that instance alone, and which has no
  prebound keyword arguments. The access on the class, where the instance is \<^verbatim>\<open>None\<close>,
  returns the decorated function itself; every call of it is an invocation of the function.
\<close>

theorem memoize_get_binding:
  "(instance \<noteq> PNone \<longrightarrow>
      memoize_get this self instance owner =
        Proxy [(''__func'', this), (''__args'', PTuple [instance]), (''__kw'', PDict [])])
   \<and> memoize_get this self PNone owner = Function (func self)
   \<and> (\<forall>args kw s. calls (snd (invoke (func self) args kw s)) = calls s @ [(args, kw)])"
  by (simp add: memoize_get_def transparent_partial_init_def invoke_calls)

theorem memoize_get_binding_witness:
  "PObj ''Obj'' 1 \<noteq> PNone
   \<and> memoize_get (PObj ''memoize'' 0) (memoize_init counting_method)
        (PObj ''Obj'' 1) (PObj ''type'' 2)
     = Proxy [(''__func'', PObj ''memoize'' 0), (''__args'', PTuple [PObj ''Obj'' 1]),
              (''__kw'', PDict [])]
   \<and> memoize_get (PObj ''memoize'' 0) (memoize_init counting_method) PNone (PObj ''type'' 2)
     = Function counting_method
   \<and> calls (snd (invoke counting_method [PInt 1, PInt 2] [] \<lparr>world = 0, calls = []\<rparr>))
     = [([PInt 1, PInt 2], [])]"
  using memoize_get_binding [of "PObj ''Obj'' 1" "PObj ''memoize'' 0"
      "memoize_init counting_method" "PObj ''type'' 2"]
  by (simp add: memoize_init_def)

section \<open>Properties of the proxy\<close>

text \<open>When the name is no slot of the proxy, the assignment goes to the wrapped object
  alone; when it is a slot, the slot is assigned and the wrapped object, read from the
  updated slots, is assigned to all the same.\<close>

lemma transparent_partial_setattr_forwarded:
  assumes "h self = Some d" and "key \<notin> fst ` set d" and "map_of d ''__func'' = Some f"
  shows "transparent_partial_setattr setattr h self key value = setattr h f key value"
proof -
  have "h(self \<mapsto> d) = h"
    using assms(1) by (rule map_upd_triv)
  with assms show ?thesis
    by (simp add: transparent_partial_setattr_def)
qed

lemma transparent_partial_setattr_own:
  assumes "h self = Some d" and "key \<in> fst ` set d"
    and "map_of (dict_set d key value) ''__func'' = Some f"
  shows "transparent_partial_setattr setattr h self key value =
      setattr (h(self \<mapsto> dict_set d key value)) f key value"
  using assms by (simp add: transparent_partial_setattr_def)

text \<open>
  C10. Setting an attribute whose name is one of the proxy's own slots is claimed to leave
  the wrapped object alone. For the proxy at address 1 that wraps the function object at
  address 2, the assignment of \<^verbatim>\<open>(9,)\<close> to \<^verbatim>\<open>__args\<close> updates the slot of the proxy and
  also sets the attribute \<^verbatim>\<open>__args\<close> on the function object.
\<close>

theorem transparent_partial_setattr_slot:
  "transparent_partial_setattr object_setattr
       [1 \<mapsto> transparent_partial_init (PObj ''function'' 2) [PInt 1] [], 2 \<mapsto> []]
       1 ''__args'' (PTuple [PInt 9])
     = (Inr [1 \<mapsto> [(''__func'', PObj ''function'' 2), (''__args'', PTuple [PInt 9]),
                   (''__kw'', PDict [])],
            2 \<mapsto> [(''__args'', PTuple [PInt 9])]] :: unit error + store)"
  by (simp add: transparent_partial_setattr_def transparent_partial_init_def)

end
